theory Spec2Isabelle
  imports Main "HOL-Library.AList" "HOL-Library.Word"
begin

section \<open>Values decoded from JSON\<close>

text \<open>
  The raw input of every model class is what \<^verbatim>\<open>json.load\<close> produces: \<^verbatim>\<open>None\<close>, booleans,
  integers, floats, strings, lists and dictionaries with string keys.  A Python \<^verbatim>\<open>float\<close> is an
  IEEE-754 double and is kept as its 64 bits.  A dictionary is an association list: Python
  dictionaries keep the insertion order, a lookup finds the first (and in Python the only) entry
  of a key, and an assignment \<^verbatim>\<open>d[k] = v\<close> replaces the entry of \<^verbatim>\<open>k\<close> in place or appends a
  new entry at the end, which is \<^const>\<open>AList.update\<close>.
\<close>

type_synonym pyfloat = "64 word"

datatype pyval =
    PNone
  | PBool bool
  | PInt int
  | PFloat pyfloat
  | PStr string
  | PList "pyval list"
  | PDict "(string \<times> pyval) list"

type_synonym pydict = "(string \<times> pyval) list"

definition get :: "pydict \<Rightarrow> string \<Rightarrow> pyval" where
  \<comment> \<open>\<^verbatim>\<open>d.get(k)\<close>: the value of the key, \<^verbatim>\<open>None\<close> when the key is absent\<close>
  "get d k = (case map_of d k of None \<Rightarrow> PNone | Some v \<Rightarrow> v)"

definition setitem :: "pydict \<Rightarrow> string \<Rightarrow> pyval \<Rightarrow> pydict" where
  \<comment> \<open>\<^verbatim>\<open>d[k] = v\<close>\<close>
  "setitem d k v = AList.update k v d"

fun is_dict :: "pyval \<Rightarrow> bool" where
  "is_dict (PDict _) = True"
| "is_dict _ = False"

fun is_str :: "pyval \<Rightarrow> bool" where
  "is_str (PStr _) = True"
| "is_str _ = False"

fun type_repr :: "pyval \<Rightarrow> string" where
  \<comment> \<open>what \<^verbatim>\<open>{type(v)}\<close> prints inside an f-string\<close>
  "type_repr PNone = ''<class 'NoneType'>''"
| "type_repr (PBool _) = ''<class 'bool'>''"
| "type_repr (PInt _) = ''<class 'int'>''"
| "type_repr (PFloat _) = ''<class 'float'>''"
| "type_repr (PStr _) = ''<class 'str'>''"
| "type_repr (PList _) = ''<class 'list'>''"
| "type_repr (PDict _) = ''<class 'dict'>''"

subsection \<open>Decimal numerals\<close>

definition digit_char :: "nat \<Rightarrow> char" where
  "digit_char d = char_of (48 + d)"

fun str_nat :: "nat \<Rightarrow> string" where
  "str_nat n = (if n < 10 then [digit_char n] else str_nat (n div 10) @ [digit_char (n mod 10)])"

declare str_nat.simps [simp del]

definition str_int :: "int \<Rightarrow> string" where
  \<comment> \<open>\<^verbatim>\<open>str(i)\<close> of a Python integer\<close>
  "str_int i = (if i < 0 then CHR ''-'' # str_nat (nat (- i)) else str_nat (nat i))"

subsection \<open>\<^verbatim>\<open>json.dumps\<close> with its default arguments\<close>

text \<open>
  The standard library's encoder, as called by the source (no keyword arguments): items are
  separated by a comma and a space, a key from its value by a colon and a space, dictionary
  entries come in the dictionary's own order, and strings are written in ASCII
  (\<^verbatim>\<open>ensure_ascii=True\<close>): the quote and the backslash are escaped, the control characters
  with a short escape use it, and every other character outside the range from the space to the
  tilde is written as \<^verbatim>\<open>\uXXXX\<close>.  A \<^typ>\<open>char\<close> is a code point below 256 here.  The text of a
  float is the encoder's, taken as the parameter \<open>float_repr\<close>.
\<close>

definition hex_char :: "nat \<Rightarrow> char" where
  "hex_char d = (if d < 10 then char_of (48 + d) else char_of (87 + d))"

definition escape_char :: "char \<Rightarrow> string" where
  "escape_char c =
     (if c = CHR 0x22 then [CHR 0x5C, CHR 0x22]
      else if c = CHR 0x5C then [CHR 0x5C, CHR 0x5C]
      else if c = CHR 0x0A then [CHR 0x5C, CHR ''n'']
      else if c = CHR 0x0D then [CHR 0x5C, CHR ''r'']
      else if c = CHR 0x09 then [CHR 0x5C, CHR ''t'']
      else if c = CHR 0x08 then [CHR 0x5C, CHR ''b'']
      else if c = CHR 0x0C then [CHR 0x5C, CHR ''f'']
      else if (32::nat) \<le> of_char c \<and> (of_char c :: nat) \<le> 126 then [c]
      else [CHR 0x5C, CHR ''u'', CHR ''0'', CHR ''0'',
            hex_char (of_char c div 16), hex_char (of_char c mod 16)])"

definition encode_basestring_ascii :: "string \<Rightarrow> string" where
  "encode_basestring_ascii s = [CHR 0x22] @ concat (map escape_char s) @ [CHR 0x22]"

fun join :: "string \<Rightarrow> string list \<Rightarrow> string" where
  \<comment> \<open>\<^verbatim>\<open>sep.join(xs)\<close>\<close>
  "join sep [] = []"
| "join sep [x] = x"
| "join sep (x # y # ys) = x @ sep @ join sep (y # ys)"

fun json_dumps :: "(pyfloat \<Rightarrow> string) \<Rightarrow> pyval \<Rightarrow> string" where
  "json_dumps float_repr PNone = ''null''"
| "json_dumps float_repr (PBool b) = (if b then ''true'' else ''false'')"
| "json_dumps float_repr (PInt i) = str_int i"
| "json_dumps float_repr (PFloat f) = float_repr f"
| "json_dumps float_repr (PStr s) = encode_basestring_ascii s"
| "json_dumps float_repr (PList xs) =
     ''['' @ join '', '' (map (json_dumps float_repr) xs) @ '']''"
| "json_dumps float_repr (PDict kvs) =
     ''{'' @ join '', ''
        (map (\<lambda>kv. encode_basestring_ascii (fst kv) @ '': '' @ json_dumps float_repr (snd kv)) kvs)
      @ ''}''"


section \<open>Errors\<close>

text \<open>
  Every exception the source can raise is a value.  A \<^verbatim>\<open>pydantic\<close> validation error carries
  one line per offending field: where the field is (the path of keys and list positions leading
  to it) and what is wrong with it.
\<close>

type_synonym loc = "string list"
type_synonym error_details = "(loc \<times> string) list"

datatype error =
    ValidationError error_details
  | ValueError string
  | IndexError
  | KeyError string
  | TypeError

section \<open>Field validation\<close>

text \<open>
  The classes of the source are declarations for \<^verbatim>\<open>pydantic\<close>: a field is validated against
  its annotation, a field without a default is required, one with a default takes it (without
  validation) when its key is absent, keys that no field declares are ignored, and construction
  reports the errors of all fields together.  The declared types are read on decoded JSON as
  follows: \<^verbatim>\<open>str\<close>, \<^verbatim>\<open>int\<close>, \<^verbatim>\<open>bool\<close>, \<^verbatim>\<open>dict\<close> and \<^verbatim>\<open>list\<close> accept the JSON values of that
  kind, \<^verbatim>\<open>Any\<close> accepts every value, \<^verbatim>\<open>T | None\<close> accepts \<^verbatim>\<open>None\<close> and what \<^verbatim>\<open>T\<close> accepts, a
  \<^verbatim>\<open>Literal\<close> accepts the listed strings, and a model class accepts a dictionary that
  constructs it.  What \<^verbatim>\<open>pydantic\<close> accepts as a \<^verbatim>\<open>float\<close> and as a \<^verbatim>\<open>datetime\<close>, and the
  values it makes of them, are parameters (the record \<open>extern\<close> below).  The conversions that
  \<^verbatim>\<open>pydantic\<close> makes between the other scalar kinds (a numeric string given for an \<^verbatim>\<open>int\<close>,
  say) are not in the source and are left out: every value accepted here is accepted there, with
  the same result.
\<close>

type_synonym 'a validated = "error_details + 'a"

definition details :: "'a validated \<Rightarrow> error_details" where
  "details r = (case r of Inl es \<Rightarrow> es | Inr _ \<Rightarrow> [])"

definition at :: "string \<Rightarrow> 'a validated \<Rightarrow> 'a validated" where
  \<comment> \<open>the errors of a field or of a list item are located under its name\<close>
  "at name r = (case r of Inl es \<Rightarrow> Inl (map (\<lambda>e. (name # fst e, snd e)) es) | Inr a \<Rightarrow> Inr a)"

fun ap :: "('a \<Rightarrow> 'b) validated \<Rightarrow> 'a validated \<Rightarrow> 'b validated" where
  \<comment> \<open>one more field: the errors of all fields are collected, in the order of the fields\<close>
  "ap (Inr f) (Inr x) = Inr (f x)"
| "ap (Inr f) (Inl es) = Inl es"
| "ap (Inl es) (Inr x) = Inl es"
| "ap (Inl es) (Inl es') = Inl (es @ es')"

definition required :: "pydict \<Rightarrow> string \<Rightarrow> (pyval \<Rightarrow> 'a validated) \<Rightarrow> 'a validated" where
  "required d k v =
     (case map_of d k of None \<Rightarrow> Inl [([k], ''Field required'')] | Some x \<Rightarrow> at k (v x))"

definition with_default :: "pydict \<Rightarrow> string \<Rightarrow> 'a \<Rightarrow> (pyval \<Rightarrow> 'a validated) \<Rightarrow> 'a validated" where
  "with_default d k dflt v = (case map_of d k of None \<Rightarrow> Inr dflt | Some x \<Rightarrow> at k (v x))"

fun v_str :: "pyval \<Rightarrow> string validated" where
  "v_str (PStr s) = Inr s"
| "v_str _ = Inl [([], ''Input should be a valid string'')]"

fun v_int :: "pyval \<Rightarrow> int validated" where
  "v_int (PInt i) = Inr i"
| "v_int _ = Inl [([], ''Input should be a valid integer'')]"

fun v_bool :: "pyval \<Rightarrow> bool validated" where
  "v_bool (PBool b) = Inr b"
| "v_bool _ = Inl [([], ''Input should be a valid boolean'')]"

fun v_dict :: "pyval \<Rightarrow> pydict validated" where
  "v_dict (PDict d) = Inr d"
| "v_dict _ = Inl [([], ''Input should be a valid dictionary'')]"

definition v_any :: "pyval \<Rightarrow> pyval validated" where
  "v_any x = Inr x"

definition v_optional :: "(pyval \<Rightarrow> 'a validated) \<Rightarrow> pyval \<Rightarrow> 'a option validated" where
  "v_optional v x = (if x = PNone then Inr None else ap (Inr Some) (v x))"

definition v_literal :: "string list \<Rightarrow> pyval \<Rightarrow> string validated" where
  "v_literal allowed x =
     (case x of
        PStr s \<Rightarrow> if s \<in> set allowed then Inr s else Inl [([], ''Input should be one of the literals'')]
      | _ \<Rightarrow> Inl [([], ''Input should be one of the literals'')])"

fun v_items :: "(pyval \<Rightarrow> 'a validated) \<Rightarrow> nat \<Rightarrow> pyval list \<Rightarrow> 'a list validated" where
  "v_items v i [] = Inr []"
| "v_items v i (x # xs) = ap (ap (Inr (#)) (at (str_nat i) (v x))) (v_items v (Suc i) xs)"

definition v_list :: "(pyval \<Rightarrow> 'a validated) \<Rightarrow> pyval \<Rightarrow> 'a list validated" where
  "v_list v x =
     (case x of PList xs \<Rightarrow> v_items v 0 xs | _ \<Rightarrow> Inl [([], ''Input should be a valid list'')])"

definition raised :: "error \<Rightarrow> error_details" where
  \<comment> \<open>an exception raised while a field is validated becomes the error of that field\<close>
  "raised e =
     (case e of
        ValidationError es \<Rightarrow> es
      | ValueError msg \<Rightarrow> [([], ''Value error, '' @ msg)]
      | IndexError \<Rightarrow> [([], ''IndexError'')]
      | KeyError k \<Rightarrow> [([], ''KeyError'')]
      | TypeError \<Rightarrow> [([], ''TypeError'')])"

definition v_call :: "('x \<Rightarrow> error + 'a) \<Rightarrow> 'x \<Rightarrow> 'a validated" where
  "v_call f x = (case f x of Inl e \<Rightarrow> Inl (raised e) | Inr a \<Rightarrow> Inr a)"

definition v_model :: "(pydict \<Rightarrow> error + 'a) \<Rightarrow> pyval \<Rightarrow> 'a validated" where
  "v_model new x =
     (case x of
        PDict d \<Rightarrow> v_call new d
      | _ \<Rightarrow> Inl [([], ''Input should be a valid dictionary or instance of the model'')])"

definition construct :: "'a validated \<Rightarrow> error + 'a" where
  "construct r = (case r of Inl es \<Rightarrow> Inl (ValidationError es) | Inr a \<Rightarrow> Inr a)"

section \<open>The classes of \<^verbatim>\<open>convoviz/models/_message.py\<close>\<close>

subsection \<open>\<^verbatim>\<open>ImageAssetPointer\<close>\<close>

record ImageAssetPointer =
  content_type :: string
  asset_pointer :: string
  size_bytes :: int
  width :: int
  height :: int
  fovea :: pyval
  metadata :: pyval

definition ImageAssetPointer_validate :: "(pyfloat \<Rightarrow> string) \<Rightarrow> pydict \<Rightarrow> pydict" where
  "ImageAssetPointer_validate float_repr values =
     (let values =
            (if is_dict (get values ''metadata'')
             then setitem values ''metadata'' (PStr (json_dumps float_repr (get values ''metadata'')))
             else if get values ''metadata'' = PNone
             then setitem values ''metadata'' (PStr ''{}'')
             else values);
          values =
            (if get values ''fovea'' = PNone then setitem values ''fovea'' (PStr []) else values)
      in values)"

text \<open>
  The class offers \<^verbatim>\<open>validate\<close> through \<^verbatim>\<open>__get_validators__\<close>, the hook of the first
  version of \<^verbatim>\<open>pydantic\<close>.  The file is written for the second version (it imports
  \<^verbatim>\<open>ConfigDict\<close>), which never reads that hook for a model class, and nothing in the source
  calls \<^verbatim>\<open>validate\<close>: \<^verbatim>\<open>ImageAssetPointer(**v)\<close> validates the declared fields on the raw
  dictionary itself.  No field has a default, so all seven are required, the two declared
  \<^verbatim>\<open>Any\<close> included.
\<close>

definition ImageAssetPointer_new :: "pydict \<Rightarrow> error + ImageAssetPointer" where
  "ImageAssetPointer_new raw =
     construct
       (ap (ap (ap (ap (ap (ap (ap (Inr ImageAssetPointer.make)
         (required raw ''content_type'' v_str))
         (required raw ''asset_pointer'' v_str))
         (required raw ''size_bytes'' v_int))
         (required raw ''width'' v_int))
         (required raw ''height'' v_int))
         (required raw ''fovea'' v_any))
         (required raw ''metadata'' v_any))"

subsection \<open>\<^verbatim>\<open>AuthorRole\<close> and \<^verbatim>\<open>MessageAuthor\<close>\<close>

definition AuthorRole :: "string list" where
  "AuthorRole = [''user'', ''assistant'', ''system'', ''tool'']"

record MessageAuthor =
  role :: string
  name :: "string option"
  metadata :: pydict

definition MessageAuthor_new :: "pydict \<Rightarrow> error + MessageAuthor" where
  "MessageAuthor_new raw =
     construct
       (ap (ap (ap (Inr MessageAuthor.make)
         (required raw ''role'' (v_literal AuthorRole)))
         (with_default raw ''name'' None (v_optional v_str)))
         (required raw ''metadata'' v_dict))"

subsection \<open>\<^verbatim>\<open>MessageContent\<close>\<close>

datatype part = PartStr string | PartImage ImageAssetPointer

text \<open>
  \<^verbatim>\<open>parts\<close> is declared as a list, with the empty list as its default.  The accessor
  \<^verbatim>\<open>Message.text\<close> nevertheless tests it against \<^verbatim>\<open>None\<close>, and Python does not enforce the
  annotation on an object once it exists, so the field is optional here and that test is a branch
  of the model.  Construction never stores \<^verbatim>\<open>None\<close> in it.
\<close>

record MessageContent =
  content_type :: string
  parts :: "part list option"
  "text" :: "string option"
  result :: "string option"

definition MessageContent_validate_parts :: "pyval \<Rightarrow> error + part" where
  "MessageContent_validate_parts v =
     (if is_dict v then
        (case v of PDict d \<Rightarrow>
           (case ImageAssetPointer_new d of Inl e \<Rightarrow> Inl e | Inr p \<Rightarrow> Inr (PartImage p)))
      else if is_str v then
        (case v of PStr s \<Rightarrow> Inr (PartStr s))
      else Inl (ValueError (''Invalid type for parts: '' @ type_repr v)))"

text \<open>
  The validator of \<^verbatim>\<open>parts\<close> is declared with \<^verbatim>\<open>pre=True, each_item=True\<close>: it runs on every
  item of the raw list, and what it returns is a string or an \<^verbatim>\<open>ImageAssetPointer\<close>, which the
  annotation of the items accepts as it is.
\<close>

definition MessageContent_new :: "pydict \<Rightarrow> error + MessageContent" where
  "MessageContent_new raw =
     construct
       (ap (ap (ap (ap (Inr MessageContent.make)
         (required raw ''content_type'' v_str))
         (ap (Inr Some)
            (with_default raw ''parts'' []
               (v_list (v_call MessageContent_validate_parts)))))
         (with_default raw ''text'' None (v_optional v_str)))
         (with_default raw ''result'' None (v_optional v_str)))"

subsection \<open>\<^verbatim>\<open>MessageMetadata\<close>\<close>

record MessageMetadata =
  model_slug :: "string option"
  invoked_plugin :: "pydict option"
  is_user_system_message :: "bool option"
  user_context_message_data :: "pydict option"

definition MessageMetadata_new :: "pydict \<Rightarrow> error + MessageMetadata" where
  "MessageMetadata_new raw =
     construct
       (ap (ap (ap (ap (Inr MessageMetadata.make)
         (with_default raw ''model_slug'' None (v_optional v_str)))
         (with_default raw ''invoked_plugin'' None (v_optional v_dict)))
         (with_default raw ''is_user_system_message'' None (v_optional v_bool)))
         (with_default raw ''user_context_message_data'' None (v_optional v_dict)))"

subsection \<open>\<^verbatim>\<open>Message\<close>\<close>

typedecl datetime

record extern =
  to_float :: "pyval \<Rightarrow> pyfloat option"
  to_datetime :: "pyval \<Rightarrow> datetime option"

definition v_float :: "extern \<Rightarrow> pyval \<Rightarrow> pyfloat validated" where
  "v_float ext x =
     (case to_float ext x of None \<Rightarrow> Inl [([], ''Input should be a valid number'')] | Some f \<Rightarrow> Inr f)"

definition v_datetime :: "extern \<Rightarrow> pyval \<Rightarrow> datetime validated" where
  "v_datetime ext x =
     (case to_datetime ext x of None \<Rightarrow> Inl [([], ''Input should be a valid datetime'')] | Some t \<Rightarrow> Inr t)"

record Message =
  id' :: string
  author :: MessageAuthor
  create_time :: "datetime option"
  update_time :: "datetime option"
  content :: MessageContent
  status :: string
  end_turn :: "bool option"
  weight :: pyfloat
  metadata :: MessageMetadata
  recipient :: string

definition Message_new :: "extern \<Rightarrow> pydict \<Rightarrow> error + Message" where
  "Message_new ext raw =
     construct
       (ap (ap (ap (ap (ap (ap (ap (ap (ap (ap (Inr Message.make)
         (required raw ''id'' v_str))
         (required raw ''author'' (v_model MessageAuthor_new)))
         (with_default raw ''create_time'' None (v_optional (v_datetime ext))))
         (with_default raw ''update_time'' None (v_optional (v_datetime ext))))
         (required raw ''content'' (v_model MessageContent_new)))
         (required raw ''status'' v_str))
         (with_default raw ''end_turn'' None (v_optional v_bool)))
         (required raw ''weight'' (v_float ext)))
         (required raw ''metadata'' (v_model MessageMetadata_new)))
         (required raw ''recipient'' v_str))"

subsection \<open>The shared configuration and \<^verbatim>\<open>header\<close>\<close>

text \<open>
  \<^verbatim>\<open>__configs\<close> is one dictionary for the whole class, the state of the module.  Its first value,
  \<^verbatim>\<open>DEFAULT_MESSAGE_CONFIGS\<close>, is defined outside this file; the operations take the current
  dictionary as an argument, and no constructor reads or writes it.
\<close>

definition dict_update :: "pydict \<Rightarrow> pydict \<Rightarrow> pydict" where
  \<comment> \<open>\<^verbatim>\<open>d.update(other)\<close>: each entry of \<^verbatim>\<open>other\<close> is assigned in \<^verbatim>\<open>d\<close>, in order\<close>
  "dict_update d other = fold (\<lambda>kv acc. setitem acc (fst kv) (snd kv)) other d"

fun subscript :: "pyval \<Rightarrow> string \<Rightarrow> error + pyval" where
  \<comment> \<open>\<^verbatim>\<open>x[k]\<close> with a string \<^verbatim>\<open>k\<close>\<close>
  "subscript (PDict d) k = (case map_of d k of None \<Rightarrow> Inl (KeyError k) | Some v \<Rightarrow> Inr v)"
| "subscript _ k = Inl TypeError"

definition Message_update_configs :: "pydict \<Rightarrow> pydict \<Rightarrow> pydict" where
  "Message_update_configs configs new_configs = dict_update configs new_configs"

definition Message_header :: "pydict \<Rightarrow> Message \<Rightarrow> error + pyval" where
  "Message_header configs self =
     (case subscript (PDict configs) ''author_headers'' of
        Inl e \<Rightarrow> Inl e
      | Inr headers \<Rightarrow> subscript headers (role (author self)))"

subsection \<open>\<^verbatim>\<open>text\<close>\<close>

definition getitem :: "'a list \<Rightarrow> nat \<Rightarrow> error + 'a" where
  \<comment> \<open>\<^verbatim>\<open>xs[i]\<close> with \<^verbatim>\<open>i\<close> not negative\<close>
  "getitem xs i = (if i < length xs then Inr (xs ! i) else Inl IndexError)"

fun str :: "(ImageAssetPointer \<Rightarrow> string) \<Rightarrow> part \<Rightarrow> string" where
  \<comment> \<open>\<^verbatim>\<open>str(x)\<close>: a string is itself; the text of a model object is the framework's, a parameter\<close>
  "str model_str (PartStr s) = s"
| "str model_str (PartImage p) = model_str p"

text \<open>
  \<^verbatim>\<open>code_block\<close> is imported from \<^verbatim>\<open>convoviz.utils\<close> and is a parameter.
\<close>

definition Message_text ::
  "(string \<Rightarrow> string) \<Rightarrow> (ImageAssetPointer \<Rightarrow> string) \<Rightarrow> Message \<Rightarrow> error + string" where
  "Message_text code_block model_str self =
     (case parts (content self) of
        Some ps \<Rightarrow>
          (case getitem ps 0 of Inl e \<Rightarrow> Inl e | Inr p \<Rightarrow> Inr (str model_str p))
      | None \<Rightarrow>
          (case MessageContent.text (content self) of
             Some t \<Rightarrow> Inr (code_block t)
           | None \<Rightarrow>
               (case result (content self) of
                  Some r \<Rightarrow> Inr r
                | None \<Rightarrow>
                    Inl (ValueError (''No valid content found in message: '' @ id' self)))))"

section \<open>Example objects\<close>

text \<open>
  Concrete inputs for the examples that follow the theorems: a text for floats, an instance of
  the library parameters (a float validator that accepts floats only, no datetime), a message with
  a given id,
  role and content, a code block with a fence of three backquotes, a configuration with a header
  for each role, the raw dictionary of an image without \<^verbatim>\<open>fovea\<close> and \<^verbatim>\<open>metadata\<close>, and
  the raw dictionary of a message with a given id, role and content.
\<close>

definition example_float_repr :: "pyfloat \<Rightarrow> string" where
  "example_float_repr f = ''0.0''"

definition example_extern :: extern where
  "example_extern =
     \<lparr>to_float = (\<lambda>x. case x of PFloat f \<Rightarrow> Some f | _ \<Rightarrow> None),
      to_datetime = (\<lambda>x. None)\<rparr>"

definition example_message :: "string \<Rightarrow> string \<Rightarrow> MessageContent \<Rightarrow> Message" where
  "example_message i r c =
     \<lparr>id' = i,
      author = \<lparr>role = r, name = None, MessageAuthor.metadata = []\<rparr>,
      create_time = None,
      update_time = None,
      content = c,
      status = ''finished_successfully'',
      end_turn = None,
      weight = 0,
      metadata =
        \<lparr>model_slug = None, invoked_plugin = None, is_user_system_message = None,
         user_context_message_data = None\<rparr>,
      recipient = ''all''\<rparr>"

definition example_code_block :: "string \<Rightarrow> string" where
  "example_code_block t =
     replicate 3 (CHR 0x60) @ ''python'' @ [CHR 0x0A] @ t @ [CHR 0x0A] @ replicate 3 (CHR 0x60)"

definition example_configs :: pydict where
  "example_configs =
     [(''author_headers'',
       PDict [(''system'', PStr ''### System''), (''user'', PStr ''# Me''),
              (''assistant'', PStr ''# ChatGPT''), (''tool'', PStr ''### Tool output'')])]"

definition example_image :: pydict where
  "example_image =
     [(''content_type'', PStr ''image_asset_pointer''),
      (''asset_pointer'', PStr ''file-service://file-abc''),
      (''size_bytes'', PInt 1024),
      (''width'', PInt 512),
      (''height'', PInt 256)]"

definition example_raw :: "string \<Rightarrow> pyval \<Rightarrow> pydict \<Rightarrow> pydict" where
  "example_raw i r c =
     [(''id'', PStr i),
      (''author'', PDict [(''role'', r), (''metadata'', PDict [])]),
      (''content'', PDict c),
      (''status'', PStr ''finished_successfully''),
      (''weight'', PFloat 0),
      (''metadata'', PDict []),
      (''recipient'', PStr ''all'')]"

section \<open>The accessor \<^verbatim>\<open>text\<close>\<close>

lemma getitem_Nil: "getitem [] 0 = Inl IndexError"
  by (simp add: getitem_def)

lemma getitem_Cons: "getitem (x # xs) 0 = Inr x"
  by (simp add: getitem_def)

text \<open>
  What each branch of \<^verbatim>\<open>text\<close> returns once it is reached: a non-empty \<^verbatim>\<open>parts\<close> gives the
  string of its first element; with \<^verbatim>\<open>parts\<close> null, a non-null \<^verbatim>\<open>text\<close> gives its code
  block; with both null, a non-null \<^verbatim>\<open>result\<close> is returned as it is; with all three null
  the accessor raises the error that names the message.
\<close>

lemma text_branches:
  "(parts (content m) = Some (p # ps) \<longrightarrow>
      Message_text code_block model_str m = Inr (str model_str p)) \<and>
   (parts (content m) = None \<and> MessageContent.text (content m) = Some t \<longrightarrow>
      Message_text code_block model_str m = Inr (code_block t)) \<and>
   (parts (content m) = None \<and> MessageContent.text (content m) = None \<and>
    result (content m) = Some r \<longrightarrow>
      Message_text code_block model_str m = Inr r) \<and>
   (parts (content m) = None \<and> MessageContent.text (content m) = None \<and>
    result (content m) = None \<longrightarrow>
      Message_text code_block model_str m =
        Inl (ValueError (''No valid content found in message: '' @ id' m)))"
  by (simp add: Message_text_def getitem_Cons)



text \<open>
  Claim C8.  When \<^verbatim>\<open>parts\<close> has a first element, \<^verbatim>\<open>text\<close> returns the string of that element,
  and so does every message whose \<^verbatim>\<open>parts\<close> starts with the same element, whatever follows it
  and whatever the other fields hold.
\<close>

theorem text_first_part:
  assumes "parts (content m) = Some (p # ps)"
  shows "Message_text code_block model_str m = Inr (str model_str p) \<and>
         (\<forall>m' ps'. parts (content m') = Some (p # ps') \<longrightarrow>
            Message_text code_block model_str m' = Message_text code_block model_str m)"
  using assms by (simp add: Message_text_def getitem_Cons)

theorem text_first_part_witness:
  "Message_text example_code_block asset_pointer
     (example_message ''m1'' ''user''
        \<lparr>content_type = ''text'', parts = Some [PartStr ''hello''], text = None, result = None\<rparr>)
     = Inr ''hello'' \<and>
   Message_text example_code_block asset_pointer
     (example_message ''m2'' ''assistant''
        \<lparr>content_type = ''text'', parts = Some [PartStr ''hello'', PartStr ''world''],
         text = Some ''x'', result = Some ''y''\<rparr>)
     = Inr ''hello''"
proof -
  let ?m1 = "example_message ''m1'' ''user''
        \<lparr>content_type = ''text'', parts = Some [PartStr ''hello''], text = None, result = None\<rparr>"
  let ?m2 = "example_message ''m2'' ''assistant''
        \<lparr>content_type = ''text'', parts = Some [PartStr ''hello'', PartStr ''world''],
         text = Some ''x'', result = Some ''y''\<rparr>"
  have h: "parts (content ?m1) = Some (PartStr ''hello'' # [])"
    by (simp add: example_message_def)
  have h2: "parts (content ?m2) = Some (PartStr ''hello'' # [PartStr ''world''])"
    by (simp add: example_message_def)
  note t = text_first_part [OF h, of example_code_block asset_pointer]
  from t have a: "Message_text example_code_block asset_pointer ?m1 = Inr ''hello''"
    by simp
  from t h2 have "Message_text example_code_block asset_pointer ?m2 =
      Message_text example_code_block asset_pointer ?m1"
    by blast
  with a show ?thesis by simp
qed

text \<open>
  Claim C10.  On the empty list \<^verbatim>\<open>parts[0]\<close> is out of range: the accessor raises
  \<^verbatim>\<open>IndexError\<close>, whatever \<^verbatim>\<open>text\<close> and \<^verbatim>\<open>result\<close> hold, and so takes none of the later
  branches.
\<close>

theorem text_empty_parts:
  assumes "parts (content m) = Some []"
  shows "Message_text code_block model_str m = Inl IndexError"
  using assms by (simp add: Message_text_def getitem_Nil)

theorem text_empty_parts_witness:
  "Message_text example_code_block asset_pointer
     (example_message ''m1'' ''assistant''
        \<lparr>content_type = ''code'', parts = Some [], text = Some ''print(1)'', result = None\<rparr>)
     = Inl IndexError \<and>
   Message_text example_code_block asset_pointer
     (example_message ''m2'' ''tool''
        \<lparr>content_type = ''execution_output'', parts = Some [], text = None, result = Some ''42''\<rparr>)
     = Inl IndexError \<and>
   Message_text example_code_block asset_pointer
     (example_message ''m3'' ''tool''
        \<lparr>content_type = ''text'', parts = Some [], text = None, result = None\<rparr>)
     = Inl IndexError"
  using
    text_empty_parts [of "example_message ''m1'' ''assistant''
        \<lparr>content_type = ''code'', parts = Some [], text = Some ''print(1)'', result = None\<rparr>"
        example_code_block asset_pointer]
    text_empty_parts [of "example_message ''m2'' ''tool''
        \<lparr>content_type = ''execution_output'', parts = Some [], text = None, result = Some ''42''\<rparr>"
        example_code_block asset_pointer]
    text_empty_parts [of "example_message ''m3'' ''tool''
        \<lparr>content_type = ''text'', parts = Some [], text = None, result = None\<rparr>"
        example_code_block asset_pointer]
  by (simp add: example_message_def)

section \<open>The shared configuration\<close>

lemma map_of_setitem: "map_of (setitem d k v) = (map_of d)(k \<mapsto> v)"
  by (simp add: setitem_def update_conv')

lemma map_of_dict_update:
  "distinct (map fst other) \<Longrightarrow>
   map_of (dict_update d other) k = (case map_of other k of None \<Rightarrow> map_of d k | Some v \<Rightarrow> Some v)"
proof (induction other arbitrary: d)
  case Nil
  then show ?case by (simp add: dict_update_def)
next
  case (Cons kv other)
  obtain k0 v0 where kv: "kv = (k0, v0)"
    by (cases kv)
  have step: "dict_update d ((k0, v0) # other) = dict_update (setitem d k0 v0) other"
    by (simp add: dict_update_def)
  from Cons.prems kv have d: "distinct (map fst other)" and n: "k0 \<notin> fst ` set other"
    by simp_all
  from n have none: "map_of other k0 = None"
    by (simp add: map_of_eq_None_iff)
  have ih: "map_of (dict_update (setitem d k0 v0) other) k =
      (case map_of other k of None \<Rightarrow> map_of (setitem d k0 v0) k | Some v \<Rightarrow> Some v)"
    by (rule Cons.IH [OF d])
  show ?case
  proof (cases "k = k0")
    case True
    from ih True none have "map_of (dict_update (setitem d k0 v0) other) k0 = Some v0"
      by (simp add: map_of_setitem)
    with True show ?thesis
      by (simp add: kv step)
  next
    case False
    then show ?thesis
      by (simp add: kv step ih map_of_setitem split: option.split)
  qed
qed

lemma header_flat_update:
  "k \<noteq> ''author_headers'' \<Longrightarrow>
   Message_header (Message_update_configs configs [(k, v)]) m = Message_header configs m"
  by (simp add: Message_header_def Message_update_configs_def dict_update_def map_of_setitem)

text \<open>
  Claim C2, as amended.  \<^verbatim>\<open>header\<close> reads the shared dictionary at the time of the call, under
  its key \<^verbatim>\<open>author_headers\<close>.  After \<^verbatim>\<open>update_configs\<close> with a mapping whose entry
  \<^verbatim>\<open>author_headers\<close> sends \<^verbatim>\<open>user\<close> to \<^verbatim>\<open>### You\<close>, every message of the role \<^verbatim>\<open>user\<close>
  has that header, whenever it was constructed: a message holds no copy of the configuration.
\<close>

theorem header_after_update:
  assumes "distinct (map fst new_configs)"
    and "map_of new_configs ''author_headers'' = Some (PDict headers)"
    and "map_of headers ''user'' = Some (PStr ''### You'')"
    and "role (author m) = ''user''"
  shows "Message_header (Message_update_configs configs new_configs) m = Inr (PStr ''### You'')"
  using assms
  by (simp add: Message_header_def Message_update_configs_def map_of_dict_update)

theorem header_after_update_witness:
  "Message_header
     (Message_update_configs example_configs
        [(''author_headers'', PDict [(''user'', PStr ''### You'')])])
     (example_message ''m1'' ''user''
        \<lparr>content_type = ''text'', parts = Some [PartStr ''hello''], text = None, result = None\<rparr>)
     = Inr (PStr ''### You'')"
  using header_after_update [of "[(''author_headers'', PDict [(''user'', PStr ''### You'')])]"
      "[(''user'', PStr ''### You'')]"
      "example_message ''m1'' ''user''
        \<lparr>content_type = ''text'', parts = Some [PartStr ''hello''], text = None, result = None\<rparr>"
      example_configs]
  by (simp add: example_message_def)

text \<open>
  As stated, C2 passes the roles at the top level of the mapping.  \<^verbatim>\<open>update_configs\<close> then adds
  a key \<^verbatim>\<open>user\<close> beside \<^verbatim>\<open>author_headers\<close>, and the header stays what it was.
\<close>

theorem header_after_update_counterexample:
  "role (author (example_message ''m1'' ''user''
        \<lparr>content_type = ''text'', parts = Some [PartStr ''hello''], text = None, result = None\<rparr>))
     = ''user'' \<and>
   Message_header
     (Message_update_configs example_configs [(''user'', PStr ''### You'')])
     (example_message ''m1'' ''user''
        \<lparr>content_type = ''text'', parts = Some [PartStr ''hello''], text = None, result = None\<rparr>)
     = Inr (PStr ''# Me'')"
  by (simp add: Message_header_def Message_update_configs_def dict_update_def setitem_def
      example_configs_def example_message_def)

section \<open>Construction of \<^verbatim>\<open>ImageAssetPointer\<close>\<close>

lemma ap_Inr_iff: "ap f x = Inr y \<longleftrightarrow> (\<exists>g a. f = Inr g \<and> x = Inr a \<and> y = g a)"
  by (cases f; cases x) auto

lemma construct_Inr_iff: "construct r = Inr a \<longleftrightarrow> r = Inr a"
  by (simp add: construct_def split: sum.split)

lemma at_Inr_iff: "at k r = Inr a \<longleftrightarrow> r = Inr a"
  by (simp add: at_def split: sum.split)

lemma required_Inr_iff:
  "required d k v = Inr a \<longleftrightarrow> (\<exists>x. map_of d k = Some x \<and> v x = Inr a)"
  by (simp add: required_def at_Inr_iff split: option.split)


lemma get_setitem: "get (setitem d k v) k' = (if k' = k then v else get d k')"
  by (simp add: get_def map_of_setitem)

lemma get_Some: "map_of d k = Some x \<Longrightarrow> get d k = x"
  by (simp add: get_def)

text \<open>
  What \<^verbatim>\<open>validate\<close> does to a dictionary it is called on.
\<close>

lemma validate_metadata:
  "get (ImageAssetPointer_validate fr raw) ''metadata'' =
     (if is_dict (get raw ''metadata'') then PStr (json_dumps fr (get raw ''metadata''))
      else if get raw ''metadata'' = PNone then PStr ''{}''
      else get raw ''metadata'')"
  by (simp add: ImageAssetPointer_validate_def Let_def get_setitem)

lemma validate_fovea:
  "get (ImageAssetPointer_validate fr raw) ''fovea'' =
     (if get raw ''fovea'' = PNone then PStr [] else get raw ''fovea'')"
  by (simp add: ImageAssetPointer_validate_def Let_def get_setitem)



lemma v_call_Inr_iff: "v_call f x = Inr a \<longleftrightarrow> f x = Inr a"
  by (simp add: v_call_def split: sum.split)

lemma v_model_Inr_iff: "v_model new x = Inr a \<longleftrightarrow> (\<exists>d. x = PDict d \<and> new d = Inr a)"
  by (cases x) (simp_all add: v_model_def v_call_Inr_iff)



lemma Message_new_content:
  assumes "Message_new ext raw = Inr m"
  shows "\<exists>rawc. MessageContent_new rawc = Inr (content m)"
  using assms
  by (auto simp add: Message_new_def construct_Inr_iff ap_Inr_iff required_Inr_iff v_model_Inr_iff
      Message.make_def)

text \<open>
  Claim C3.  \<^verbatim>\<open>validate\<close> would turn a dictionary in \<^verbatim>\<open>metadata\<close> into its JSON text, a
  missing or null \<^verbatim>\<open>metadata\<close> into the two characters \<^verbatim>\<open>{}\<close> and a null \<^verbatim>\<open>fovea\<close> into the
  empty string.  Construction does not run it: of a raw image with a null \<^verbatim>\<open>fovea\<close> and the
  dictionary \<^verbatim>\<open>{"a": 1}\<close> as \<^verbatim>\<open>metadata\<close> the constructed object holds null and the
  dictionary, where \<^verbatim>\<open>validate\<close> on the same input gives the empty string and the JSON text;
  and a raw image without the two keys is refused.
\<close>

theorem image_asset_pointer_not_normalized:
  "ImageAssetPointer_new
     (example_image @ [(''fovea'', PNone), (''metadata'', PDict [(''a'', PInt 1)])])
   = Inr \<lparr>ImageAssetPointer.content_type = ''image_asset_pointer'',
          asset_pointer = ''file-service://file-abc'', size_bytes = 1024, width = 512,
          height = 256, fovea = PNone,
          ImageAssetPointer.metadata = PDict [(''a'', PInt 1)]\<rparr> \<and>
   ImageAssetPointer_validate example_float_repr
     (example_image @ [(''fovea'', PNone), (''metadata'', PDict [(''a'', PInt 1)])])
   = example_image @ [(''fovea'', PStr []), (''metadata'', PStr ''{\"a\": 1}'')] \<and>
   ImageAssetPointer_new (example_image @ [(''fovea'', PNone), (''metadata'', PNone)])
   = Inr \<lparr>ImageAssetPointer.content_type = ''image_asset_pointer'',
          asset_pointer = ''file-service://file-abc'', size_bytes = 1024, width = 512,
          height = 256, fovea = PNone, ImageAssetPointer.metadata = PNone\<rparr> \<and>
   ImageAssetPointer_new example_image
   = Inl (ValidationError
       [([''fovea''], ''Field required''), ([''metadata''], ''Field required'')])"
proof (intro conjI)
  show "ImageAssetPointer_new
     (example_image @ [(''fovea'', PNone), (''metadata'', PDict [(''a'', PInt 1)])])
   = Inr \<lparr>ImageAssetPointer.content_type = ''image_asset_pointer'',
          asset_pointer = ''file-service://file-abc'', size_bytes = 1024, width = 512,
          height = 256, fovea = PNone,
          ImageAssetPointer.metadata = PDict [(''a'', PInt 1)]\<rparr>"
    by code_simp
  show "ImageAssetPointer_validate example_float_repr
     (example_image @ [(''fovea'', PNone), (''metadata'', PDict [(''a'', PInt 1)])])
   = example_image @ [(''fovea'', PStr []), (''metadata'', PStr ''{\"a\": 1}'')]"
    by code_simp
  show "ImageAssetPointer_new (example_image @ [(''fovea'', PNone), (''metadata'', PNone)])
   = Inr \<lparr>ImageAssetPointer.content_type = ''image_asset_pointer'',
          asset_pointer = ''file-service://file-abc'', size_bytes = 1024, width = 512,
          height = 256, fovea = PNone, ImageAssetPointer.metadata = PNone\<rparr>"
    by code_simp
  show "ImageAssetPointer_new example_image
   = Inl (ValidationError
       [([''fovea''], ''Field required''), ([''metadata''], ''Field required'')])"
    by code_simp
qed





section \<open>Construction of \<^verbatim>\<open>MessageContent\<close> and \<^verbatim>\<open>Message\<close>\<close>

lemma details_ap: "details (ap f x) = details f @ details x"
  by (cases f; cases x) (simp_all add: details_def)

lemma details_at: "details (at k r) = map (\<lambda>e. (k # fst e, snd e)) (details r)"
  by (cases r) (simp_all add: details_def at_def)

lemma details_Inr: "details (Inr a) = []"
  by (simp add: details_def)

lemma details_required:
  "map_of d k = Some x \<Longrightarrow> details (required d k v) = map (\<lambda>e. (k # fst e, snd e)) (details (v x))"
  by (simp add: required_def details_at)

lemma construct_failed:
  "e \<in> set (details r) \<Longrightarrow> construct r = Inl (ValidationError (details r))"
  by (cases r) (simp_all add: construct_def details_def)

lemma construct_Inl: "construct r = Inl e \<Longrightarrow> e = ValidationError (details r)"
  by (cases r) (simp_all add: construct_def details_def)








lemma str_nat_digits:
  "str_nat 0 = ''0''" "str_nat 1 = ''1''" "str_nat 2 = ''2''"
  "str_nat (Suc 0) = ''1''" "str_nat (Suc (Suc 0)) = ''2''"
  by code_simp+


lemma example_bad_parts:
  "Message_new example_extern
     (example_raw ''m1'' (PStr ''user'')
        [(''content_type'', PStr ''text''),
         (''parts'', PList [PStr ''hello'', PInt 3, PNone])])
   = Inl (ValidationError
       [([''content'', ''parts'', ''1''], ''Value error, Invalid type for parts: <class 'int'>''),
        ([''content'', ''parts'', ''2''],
         ''Value error, Invalid type for parts: <class 'NoneType'>'')])"
  by (simp add: Message_new_def MessageContent_new_def MessageAuthor_new_def
      MessageMetadata_new_def MessageContent_validate_parts_def example_raw_def example_extern_def
      required_def with_default_def at_def construct_def v_model_def
      v_call_def v_list_def v_optional_def v_literal_def v_float_def AuthorRole_def raised_def
      Message.make_def MessageContent.make_def MessageAuthor.make_def
      MessageMetadata.make_def str_nat_digits)


section \<open>The role of the author\<close>

lemma details_Inl: "details (Inl es) = es"
  by (simp add: details_def)

lemma details_required_loc:
  "e \<in> set (details (required d k v)) \<Longrightarrow> \<exists>l. fst e = k # l"
proof (cases "map_of d k")
  case None
  assume "e \<in> set (details (required d k v))"
  with None show ?thesis
    by (simp add: required_def details_Inl)
next
  case (Some x)
  assume "e \<in> set (details (required d k v))"
  with Some show ?thesis
    by (auto simp add: details_required)
qed

lemma details_with_default_loc:
  "e \<in> set (details (with_default d k dflt v)) \<Longrightarrow> \<exists>l. fst e = k # l"
proof (cases "map_of d k")
  case None
  assume "e \<in> set (details (with_default d k dflt v))"
  with None show ?thesis
    by (simp add: with_default_def details_Inr)
next
  case (Some x)
  assume "e \<in> set (details (with_default d k dflt v))"
  with Some show ?thesis
    by (auto simp add: with_default_def details_at)
qed

lemma details_v_model_construct:
  "details (v_model (\<lambda>d. construct (f d)) (PDict d)) = details (f d)"
  by (cases "f d") (simp_all add: v_model_def v_call_def construct_def raised_def details_def)

lemma AuthorRole_set: "set AuthorRole = {''user'', ''assistant'', ''system'', ''tool''}"
  by (auto simp add: AuthorRole_def)

lemma v_literal_ok: "r \<in> set AuthorRole \<Longrightarrow> v_literal AuthorRole (PStr r) = Inr r"
  by (simp add: v_literal_def)

lemma v_literal_bad:
  "v \<notin> PStr ` set AuthorRole \<Longrightarrow>
   v_literal AuthorRole v = Inl [([], ''Input should be one of the literals'')]"
  by (cases v) (auto simp add: v_literal_def)

lemma MessageAuthor_new_eq:
  "MessageAuthor_new =
     (\<lambda>raw. construct
       (ap (ap (ap (Inr MessageAuthor.make)
         (required raw ''role'' (v_literal AuthorRole)))
         (with_default raw ''name'' None (v_optional v_str)))
         (required raw ''metadata'' v_dict)))"
  by (rule ext) (simp add: MessageAuthor_new_def)

lemma details_author:
  assumes "map_of raw ''author'' = Some (PDict rawa)"
  shows "details (required raw ''author'' (v_model MessageAuthor_new)) =
     map (\<lambda>e. (''author'' # fst e, snd e))
       (details (required rawa ''role'' (v_literal AuthorRole)) @
        details (with_default rawa ''name'' None (v_optional v_str)) @
        details (required rawa ''metadata'' v_dict))"
  using assms
  by (simp add: details_required MessageAuthor_new_eq details_v_model_construct details_ap
      details_Inr)

lemma Message_new_details:
  "Message_new ext raw = Inl (ValidationError es) \<Longrightarrow>
   es = details (required raw ''id'' v_str) @
        details (required raw ''author'' (v_model MessageAuthor_new)) @
        details (with_default raw ''create_time'' None (v_optional (v_datetime ext))) @
        details (with_default raw ''update_time'' None (v_optional (v_datetime ext))) @
        details (required raw ''content'' (v_model MessageContent_new)) @
        details (required raw ''status'' v_str) @
        details (with_default raw ''end_turn'' None (v_optional v_bool)) @
        details (required raw ''weight'' (v_float ext)) @
        details (required raw ''metadata'' (v_model MessageMetadata_new)) @
        details (required raw ''recipient'' v_str)"
  unfolding Message_new_def
  by (drule construct_Inl) (simp add: details_ap details_Inr)

lemma Message_new_author_error:
  assumes "e \<in> set (details (required raw ''author'' (v_model MessageAuthor_new)))"
  shows "\<exists>es. Message_new ext raw = Inl (ValidationError es) \<and> e \<in> set es"
proof -
  from assms have *: "e \<in> set (details
       (ap (ap (ap (ap (ap (ap (ap (ap (ap (ap (Inr Message.make)
         (required raw ''id'' v_str))
         (required raw ''author'' (v_model MessageAuthor_new)))
         (with_default raw ''create_time'' None (v_optional (v_datetime ext))))
         (with_default raw ''update_time'' None (v_optional (v_datetime ext))))
         (required raw ''content'' (v_model MessageContent_new)))
         (required raw ''status'' v_str))
         (with_default raw ''end_turn'' None (v_optional v_bool)))
         (required raw ''weight'' (v_float ext)))
         (required raw ''metadata'' (v_model MessageMetadata_new)))
         (required raw ''recipient'' v_str)))"
    by (simp add: details_ap)
  from construct_failed [OF *] * show ?thesis
    unfolding Message_new_def by blast
qed

lemma role_error_free:
  assumes "map_of raw ''author'' = Some (PDict rawa)"
    and "map_of rawa ''role'' = Some (PStr r)"
    and "r \<in> set AuthorRole"
    and "Message_new ext raw = Inl (ValidationError es)"
  shows "([''author'', ''role''], msg) \<notin> set es"
proof
  assume in_es: "([''author'', ''role''], msg) \<in> set es"
  have role: "details (required rawa ''role'' (v_literal AuthorRole)) = []"
    using assms(2,3) by (simp add: details_required v_literal_ok details_Inr)
  have other: "([''author'', ''role''], msg) \<notin> set (details (required raw k v))"
    if "k \<noteq> ''author''" for k and v :: "pyval \<Rightarrow> 'a validated"
    using that by (auto dest: details_required_loc)
  have other': "([''author'', ''role''], msg) \<notin> set (details (with_default raw k dflt v))"
    if "k \<noteq> ''author''" for k dflt and v :: "pyval \<Rightarrow> 'a validated"
    using that by (auto dest: details_with_default_loc)
  from in_es Message_new_details [OF assms(4)]
  have "([''author'', ''role''], msg) \<in>
      set (details (required raw ''author'' (v_model MessageAuthor_new)))"
    by (auto simp add: other other')
  then have "([''role''], msg) \<in>
      set (details (with_default rawa ''name'' None (v_optional v_str))) \<union>
      set (details (required rawa ''metadata'' v_dict))"
    by (auto simp add: details_author [OF assms(1)] role)
  then show False
    by (auto dest: details_required_loc details_with_default_loc)
qed

text \<open>
  Claim C7.  \<^verbatim>\<open>AuthorRole\<close> is closed: a raw message whose \<^verbatim>\<open>author.role\<close> is anything but one
  of the four strings is not constructed, and the validation error has a line for that field.
  Each of the four strings passes the validation of the field, and whatever error the
  construction may then still raise has no line for \<^verbatim>\<open>author.role\<close>.
\<close>

theorem author_role_closed:
  "(map_of raw ''author'' = Some (PDict rawa) \<and> map_of rawa ''role'' = Some v \<and>
    v \<notin> {PStr ''user'', PStr ''assistant'', PStr ''system'', PStr ''tool''} \<longrightarrow>
      (\<exists>es. Message_new ext raw = Inl (ValidationError es) \<and>
         ([''author'', ''role''], ''Input should be one of the literals'') \<in> set es)) \<and>
   (r \<in> {''user'', ''assistant'', ''system'', ''tool''} \<longrightarrow>
      v_literal AuthorRole (PStr r) = Inr r) \<and>
   (map_of raw ''author'' = Some (PDict rawa) \<and> map_of rawa ''role'' = Some (PStr r) \<and>
    r \<in> {''user'', ''assistant'', ''system'', ''tool''} \<and>
    Message_new ext raw = Inl (ValidationError es) \<longrightarrow>
      (\<forall>msg. ([''author'', ''role''], msg) \<notin> set es))"
proof (intro conjI impI allI)
  assume a: "map_of raw ''author'' = Some (PDict rawa) \<and> map_of rawa ''role'' = Some v \<and>
    v \<notin> {PStr ''user'', PStr ''assistant'', PStr ''system'', PStr ''tool''}"
  then have "v \<notin> PStr ` set AuthorRole"
    by (auto simp add: AuthorRole_set)
  then have "details (required rawa ''role'' (v_literal AuthorRole)) =
      [([''role''], ''Input should be one of the literals'')]"
    using a by (simp add: details_required v_literal_bad details_Inl)
  then have "([''author'', ''role''], ''Input should be one of the literals'') \<in>
      set (details (required raw ''author'' (v_model MessageAuthor_new)))"
    using a by (simp add: details_author)
  then show "\<exists>es. Message_new ext raw = Inl (ValidationError es) \<and>
      ([''author'', ''role''], ''Input should be one of the literals'') \<in> set es"
    by (rule Message_new_author_error)
next
  assume "r \<in> {''user'', ''assistant'', ''system'', ''tool''}"
  then show "v_literal AuthorRole (PStr r) = Inr r"
    by (intro v_literal_ok) (simp add: AuthorRole_set)
next
  fix msg
  assume "map_of raw ''author'' = Some (PDict rawa) \<and> map_of rawa ''role'' = Some (PStr r) \<and>
    r \<in> {''user'', ''assistant'', ''system'', ''tool''} \<and>
    Message_new ext raw = Inl (ValidationError es)"
  then show "([''author'', ''role''], msg) \<notin> set es"
    by (intro role_error_free [of raw rawa r ext]) (simp_all add: AuthorRole_set)
qed

lemmas example_defs =
  Message_new_def MessageContent_new_def MessageAuthor_new_def MessageMetadata_new_def
  MessageContent_validate_parts_def example_raw_def example_extern_def example_message_def
  required_def with_default_def at_def construct_def v_model_def v_call_def v_list_def
  v_optional_def v_literal_def v_float_def AuthorRole_def raised_def
  Message.make_def MessageContent.make_def MessageAuthor.make_def MessageMetadata.make_def

theorem author_role_closed_witness:
  "Message_new example_extern
     (example_raw ''m1'' (PStr ''bot'')
        [(''content_type'', PStr ''text''), (''parts'', PList [PStr ''hello''])])
   = Inl (ValidationError [([''author'', ''role''], ''Input should be one of the literals'')]) \<and>
   Message_new example_extern
     (example_raw ''m1'' (PInt 1)
        [(''content_type'', PStr ''text''), (''parts'', PList [PStr ''hello''])])
   = Inl (ValidationError [([''author'', ''role''], ''Input should be one of the literals'')]) \<and>
   v_literal AuthorRole (PStr ''user'') = Inr ''user'' \<and>
   v_literal AuthorRole (PStr ''assistant'') = Inr ''assistant'' \<and>
   v_literal AuthorRole (PStr ''system'') = Inr ''system'' \<and>
   v_literal AuthorRole (PStr ''tool'') = Inr ''tool'' \<and>
   Message_new example_extern
     (example_raw ''m1'' (PStr ''tool'')
        [(''content_type'', PStr ''text''), (''parts'', PList [PStr ''hello''])])
   = Inr (example_message ''m1'' ''tool''
       \<lparr>content_type = ''text'', parts = Some [PartStr ''hello''], text = None, result = None\<rparr>) \<and>
   ([''author'', ''role''], ''Input should be one of the literals'') \<notin>
     set [([''content'', ''parts'', ''1''], ''Value error, Invalid type for parts: <class 'int'>''),
          ([''content'', ''parts'', ''2''],
           ''Value error, Invalid type for parts: <class 'NoneType'>'')]"
proof -
  let ?c = "[(''content_type'', PStr ''text''), (''parts'', PList [PStr ''hello''])]"
  let ?bad = "example_raw ''m1'' (PStr ''bot'') ?c"
  have pre: "map_of ?bad ''author'' = Some (PDict [(''role'', PStr ''bot''), (''metadata'', PDict [])]) \<and>
      map_of [(''role'', PStr ''bot''), (''metadata'', PDict [])] ''role'' = Some (PStr ''bot'') \<and>
      PStr ''bot'' \<notin> {PStr ''user'', PStr ''assistant'', PStr ''system'', PStr ''tool''}"
    by (simp add: example_raw_def)
  note author_role_closed [THEN conjunct1, THEN mp, OF pre, of example_extern]
  have bad: "Message_new example_extern ?bad =
      Inl (ValidationError [([''author'', ''role''], ''Input should be one of the literals'')])"
    by (simp add: example_defs)
  have bad': "Message_new example_extern (example_raw ''m1'' (PInt 1) ?c) =
      Inl (ValidationError [([''author'', ''role''], ''Input should be one of the literals'')])"
    by (simp add: example_defs)
  have lit: "v_literal AuthorRole (PStr ''user'') = Inr ''user''"
    "v_literal AuthorRole (PStr ''assistant'') = Inr ''assistant''"
    "v_literal AuthorRole (PStr ''system'') = Inr ''system''"
    "v_literal AuthorRole (PStr ''tool'') = Inr ''tool''"
    using author_role_closed [THEN conjunct2, THEN conjunct1, of "''user''"]
      author_role_closed [THEN conjunct2, THEN conjunct1, of "''assistant''"]
      author_role_closed [THEN conjunct2, THEN conjunct1, of "''system''"]
      author_role_closed [THEN conjunct2, THEN conjunct1, of "''tool''"]
    by simp_all
  have ok: "Message_new example_extern (example_raw ''m1'' (PStr ''tool'') ?c) =
      Inr (example_message ''m1'' ''tool''
       \<lparr>content_type = ''text'', parts = Some [PartStr ''hello''], text = None, result = None\<rparr>)"
    by (simp add: example_defs)
  let ?rawc = "[(''content_type'', PStr ''text''), (''parts'', PList [PStr ''hello'', PInt 3, PNone])]"
  let ?raw = "example_raw ''m1'' (PStr ''user'') ?rawc"
  let ?es = "[([''content'', ''parts'', ''1''], ''Value error, Invalid type for parts: <class 'int'>''),
          ([''content'', ''parts'', ''2''],
           ''Value error, Invalid type for parts: <class 'NoneType'>'')]"
  have pre3: "map_of ?raw ''author'' = Some (PDict [(''role'', PStr ''user''), (''metadata'', PDict [])]) \<and>
      map_of [(''role'', PStr ''user''), (''metadata'', PDict [])] ''role'' = Some (PStr ''user'') \<and>
      ''user'' \<in> {''user'', ''assistant'', ''system'', ''tool''} \<and>
      Message_new example_extern ?raw = Inl (ValidationError ?es)"
    using example_bad_parts by (simp add: example_raw_def)
  have free: "([''author'', ''role''], ''Input should be one of the literals'') \<notin> set ?es"
    by (rule author_role_closed [THEN conjunct2, THEN conjunct2, THEN mp, OF pre3, THEN spec])
  show ?thesis
    by (intro conjI bad bad' lit ok free)
qed

section \<open>The default of \<^verbatim>\<open>parts\<close>\<close>

lemma optional_str_field:
  assumes "get d k = (case t of None \<Rightarrow> PNone | Some s \<Rightarrow> PStr s)"
  shows "with_default d k None (v_optional v_str) = Inr t"
proof (cases "map_of d k")
  case None
  with assms have "t = None"
    by (cases t) (simp_all add: get_def)
  with None show ?thesis
    by (simp add: with_default_def)
next
  case (Some x)
  with assms have "x = (case t of None \<Rightarrow> PNone | Some s \<Rightarrow> PStr s)"
    by (simp add: get_def)
  with Some show ?thesis
    by (cases t) (simp_all add: with_default_def v_optional_def at_def)
qed

lemma MessageContent_new_no_parts:
  assumes "map_of rawc ''parts'' = None"
  shows "MessageContent_new rawc =
     construct
       (ap (ap (ap (ap (Inr MessageContent.make)
         (required rawc ''content_type'' v_str))
         (Inr (Some [])))
         (with_default rawc ''text'' None (v_optional v_str)))
         (with_default rawc ''result'' None (v_optional v_str)))"
  using assms by (simp add: MessageContent_new_def with_default_def)

lemma Message_new_content_of:
  assumes "Message_new ext raw = Inr m" and "map_of raw ''content'' = Some (PDict rawc)"
  shows "MessageContent_new rawc = Inr (content m)"
  using assms
  by (auto simp add: Message_new_def construct_Inr_iff ap_Inr_iff required_Inr_iff v_model_Inr_iff
      Message.make_def)

text \<open>
  Claim C9.  \<^verbatim>\<open>parts\<close> has the empty list as its default.  A raw content without the key
  \<^verbatim>\<open>parts\<close> is constructed whenever its other fields are valid, no validation error of it has a
  line for \<^verbatim>\<open>parts\<close>, and the constructed record holds the empty list, not null.  For a
  message constructed from such a content, \<^verbatim>\<open>text\<close> therefore takes the branch of \<^verbatim>\<open>parts\<close>
  (and raises on its first element).
\<close>

theorem parts_default_empty:
  "(map_of rawc ''parts'' = None \<and> MessageContent_new rawc = Inr c \<longrightarrow> parts c = Some []) \<and>
   (map_of rawc ''parts'' = None \<and> map_of rawc ''content_type'' = Some (PStr ct) \<and>
    get rawc ''text'' = (case t of None \<Rightarrow> PNone | Some s \<Rightarrow> PStr s) \<and>
    get rawc ''result'' = (case r of None \<Rightarrow> PNone | Some s \<Rightarrow> PStr s) \<longrightarrow>
      MessageContent_new rawc =
        Inr \<lparr>content_type = ct, parts = Some [], text = t, result = r\<rparr>) \<and>
   (map_of rawc ''parts'' = None \<and> MessageContent_new rawc = Inl (ValidationError es) \<longrightarrow>
      (\<forall>l msg. (''parts'' # l, msg) \<notin> set es)) \<and>
   (map_of raw ''content'' = Some (PDict rawc) \<and> map_of rawc ''parts'' = None \<and>
    Message_new ext raw = Inr m \<longrightarrow>
      parts (content m) = Some [] \<and> parts (content m) \<noteq> None \<and>
      Message_text code_block model_str m = Inl IndexError)"
proof (intro conjI impI allI)
  assume "map_of rawc ''parts'' = None \<and> MessageContent_new rawc = Inr c"
  then show "parts c = Some []"
    by (auto simp add: MessageContent_new_no_parts construct_Inr_iff ap_Inr_iff
        MessageContent.make_def)
next
  assume a: "map_of rawc ''parts'' = None \<and> map_of rawc ''content_type'' = Some (PStr ct) \<and>
    get rawc ''text'' = (case t of None \<Rightarrow> PNone | Some s \<Rightarrow> PStr s) \<and>
    get rawc ''result'' = (case r of None \<Rightarrow> PNone | Some s \<Rightarrow> PStr s)"
  then have "with_default rawc ''text'' None (v_optional v_str) = Inr t"
    and "with_default rawc ''result'' None (v_optional v_str) = Inr r"
    and "required rawc ''content_type'' v_str = Inr ct"
    by (simp_all add: optional_str_field required_def at_def)
  with a show "MessageContent_new rawc =
      Inr \<lparr>content_type = ct, parts = Some [], text = t, result = r\<rparr>"
    by (simp add: MessageContent_new_no_parts construct_def MessageContent.make_def)
next
  fix l msg
  assume a: "map_of rawc ''parts'' = None \<and> MessageContent_new rawc = Inl (ValidationError es)"
  then have n: "map_of rawc ''parts'' = None"
    and e: "MessageContent_new rawc = Inl (ValidationError es)"
    by blast+
  from e have "construct
       (ap (ap (ap (ap (Inr MessageContent.make)
         (required rawc ''content_type'' v_str))
         (Inr (Some [])))
         (with_default rawc ''text'' None (v_optional v_str)))
         (with_default rawc ''result'' None (v_optional v_str))) = Inl (ValidationError es)"
    unfolding MessageContent_new_no_parts [OF n] .
  from construct_Inl [OF this]
  have "es = details (required rawc ''content_type'' v_str) @
      details (with_default rawc ''text'' None (v_optional v_str)) @
      details (with_default rawc ''result'' None (v_optional v_str))"
    by (simp add: details_ap details_Inr)
  then show "(''parts'' # l, msg) \<notin> set es"
    by (auto dest: details_required_loc details_with_default_loc)
next
  assume a: "map_of raw ''content'' = Some (PDict rawc) \<and> map_of rawc ''parts'' = None \<and>
    Message_new ext raw = Inr m"
  then have n: "map_of rawc ''parts'' = None"
    by blast
  from a have "MessageContent_new rawc = Inr (content m)"
    using Message_new_content_of by blast
  then show p: "parts (content m) = Some []"
    unfolding MessageContent_new_no_parts [OF n]
    by (auto simp add: construct_Inr_iff ap_Inr_iff MessageContent.make_def)
  then show "parts (content m) \<noteq> None"
    by simp
  from p show "Message_text code_block model_str m = Inl IndexError"
    by (simp add: Message_text_def getitem_Nil)
qed

theorem parts_default_empty_witness:
  "MessageContent_new
     [(''content_type'', PStr ''code''), (''text'', PStr ''print(1)'')]
   = Inr \<lparr>content_type = ''code'', parts = Some [], text = Some ''print(1)'', result = None\<rparr> \<and>
   Message_new example_extern
     (example_raw ''m1'' (PStr ''assistant'')
        [(''content_type'', PStr ''code''), (''text'', PStr ''print(1)'')])
   = Inr (example_message ''m1'' ''assistant''
       \<lparr>content_type = ''code'', parts = Some [], text = Some ''print(1)'', result = None\<rparr>) \<and>
   Message_text example_code_block asset_pointer
     (example_message ''m1'' ''assistant''
       \<lparr>content_type = ''code'', parts = Some [], text = Some ''print(1)'', result = None\<rparr>)
   = Inl IndexError \<and>
   MessageContent_new [(''text'', PInt 1)]
   = Inl (ValidationError
       [([''content_type''], ''Field required''),
        ([''text''], ''Input should be a valid string'')])"
proof -
  let ?rawc = "[(''content_type'', PStr ''code''), (''text'', PStr ''print(1)'')]"
  let ?raw = "example_raw ''m1'' (PStr ''assistant'') ?rawc"
  let ?c = "\<lparr>content_type = ''code'', parts = Some [], text = Some ''print(1)'', result = None\<rparr>"
  let ?m = "example_message ''m1'' ''assistant'' ?c"
  let ?es = "[([''content_type''], ''Field required''), ([''text''], ''Input should be a valid string'')]"
  have pre: "map_of ?rawc ''parts'' = None \<and> map_of ?rawc ''content_type'' = Some (PStr ''code'') \<and>
      get ?rawc ''text'' = (case Some ''print(1)'' of None \<Rightarrow> PNone | Some s \<Rightarrow> PStr s) \<and>
      get ?rawc ''result'' = (case None of None \<Rightarrow> PNone | Some s \<Rightarrow> PStr s)"
    by (simp add: get_def)
  from parts_default_empty [of ?rawc _ "''code''" "Some ''print(1)''" None] pre
  have c: "MessageContent_new ?rawc = Inr ?c"
    by blast
  have m: "Message_new example_extern ?raw = Inr ?m"
    by (simp add: example_defs)
  have prem: "map_of ?raw ''content'' = Some (PDict ?rawc) \<and> map_of ?rawc ''parts'' = None \<and>
      Message_new example_extern ?raw = Inr ?m"
    using m by (simp add: example_raw_def)
  from parts_default_empty [of ?rawc _ _ _ _ _ ?raw example_extern ?m
      example_code_block asset_pointer] prem
  have t: "Message_text example_code_block asset_pointer ?m = Inl IndexError"
    by blast
  have e: "MessageContent_new [(''text'', PInt 1)] = Inl (ValidationError ?es)"
    by (simp add: example_defs)
  from parts_default_empty [of "[(''text'', PInt 1)]" _ _ _ _ ?es] e
  have "\<forall>l msg. (''parts'' # l, msg) \<notin> set ?es"
    by simp
  from c m t e show ?thesis
    by blast
qed

section \<open>\<^verbatim>\<open>text\<close> on constructed messages\<close>

text \<open>
  Construction never stores null in \<^verbatim>\<open>parts\<close>, so on every constructed message the test
  \<^verbatim>\<open>parts is not None\<close> holds: \<^verbatim>\<open>text\<close> returns the string of the first part or raises on the
  empty list, and the branches for \<^verbatim>\<open>text\<close>, for \<^verbatim>\<open>result\<close> and for the missing content are
  never reached.
\<close>

lemma constructed_parts_not_null:
  assumes "Message_new ext raw = Inr m"
  shows "parts (content m) \<noteq> None"
proof -
  from Message_new_content [OF assms] obtain rawc where
    "MessageContent_new rawc = Inr (content m)"
    by blast
  then show ?thesis
    by (auto simp add: MessageContent_new_def construct_Inr_iff ap_Inr_iff MessageContent.make_def)
qed

lemma constructed_text:
  assumes "Message_new ext raw = Inr m"
  shows "\<exists>ps. parts (content m) = Some ps \<and>
           Message_text code_block model_str m =
             (case ps of [] \<Rightarrow> Inl IndexError | p # _ \<Rightarrow> Inr (str model_str p))"
proof -
  from constructed_parts_not_null [OF assms] obtain ps where ps: "parts (content m) = Some ps"
    by blast
  then have "Message_text code_block model_str m =
      (case ps of [] \<Rightarrow> Inl IndexError | p # _ \<Rightarrow> Inr (str model_str p))"
    by (cases ps) (simp_all add: Message_text_def getitem_Nil getitem_Cons)
  with ps show ?thesis by blast
qed

text \<open>
  Claim C1.  \<^verbatim>\<open>text\<close> is written as a choice by priority among \<^verbatim>\<open>parts\<close>, \<^verbatim>\<open>text\<close> and
  \<^verbatim>\<open>result\<close>, and each branch returns what the priority says once it is reached
  (\<open>text_branches\<close>).  On constructed messages the priority does not hold: a message
  constructed from a content that has a \<^verbatim>\<open>text\<close> and no \<^verbatim>\<open>parts\<close> holds the empty list of
  parts, and the accessor raises \<^verbatim>\<open>IndexError\<close> instead of returning the code block; a message
  with a \<^verbatim>\<open>result\<close> only raises likewise instead of returning the result.
\<close>

theorem text_priority_broken:
  "Message_new example_extern
     (example_raw ''m1'' (PStr ''assistant'')
        [(''content_type'', PStr ''code''), (''text'', PStr ''print(1)'')])
   = Inr (example_message ''m1'' ''assistant''
       \<lparr>content_type = ''code'', parts = Some [], text = Some ''print(1)'', result = None\<rparr>) \<and>
   Message_text example_code_block asset_pointer
     (example_message ''m1'' ''assistant''
       \<lparr>content_type = ''code'', parts = Some [], text = Some ''print(1)'', result = None\<rparr>)
   = Inl IndexError \<and>
   Message_new example_extern
     (example_raw ''m2'' (PStr ''tool'')
        [(''content_type'', PStr ''execution_output''), (''result'', PStr ''42'')])
   = Inr (example_message ''m2'' ''tool''
       \<lparr>content_type = ''execution_output'', parts = Some [], text = None,
        result = Some ''42''\<rparr>) \<and>
   Message_text example_code_block asset_pointer
     (example_message ''m2'' ''tool''
       \<lparr>content_type = ''execution_output'', parts = Some [], text = None,
        result = Some ''42''\<rparr>)
   = Inl IndexError"
proof (intro conjI)
  show "Message_new example_extern
     (example_raw ''m1'' (PStr ''assistant'')
        [(''content_type'', PStr ''code''), (''text'', PStr ''print(1)'')])
   = Inr (example_message ''m1'' ''assistant''
       \<lparr>content_type = ''code'', parts = Some [], text = Some ''print(1)'', result = None\<rparr>)"
    by (simp add: example_defs)
  show "Message_text example_code_block asset_pointer
     (example_message ''m1'' ''assistant''
       \<lparr>content_type = ''code'', parts = Some [], text = Some ''print(1)'', result = None\<rparr>)
   = Inl IndexError"
    by (simp add: Message_text_def example_message_def getitem_Nil)
  show "Message_new example_extern
     (example_raw ''m2'' (PStr ''tool'')
        [(''content_type'', PStr ''execution_output''), (''result'', PStr ''42'')])
   = Inr (example_message ''m2'' ''tool''
       \<lparr>content_type = ''execution_output'', parts = Some [], text = None,
        result = Some ''42''\<rparr>)"
    by (simp add: example_defs)
  show "Message_text example_code_block asset_pointer
     (example_message ''m2'' ''tool''
       \<lparr>content_type = ''execution_output'', parts = Some [], text = None,
        result = Some ''42''\<rparr>)
   = Inl IndexError"
    by (simp add: Message_text_def example_message_def getitem_Nil)
qed

end
